theory Spec2Isabelle
  imports Main "HOL-Library.Sublist"
begin

section \<open>Strings, runes and the Unicode tables\<close>

text \<open>
  The generator (package \<open>generator\<close>) works on Go strings. Every place where it looks
  inside a string does so rune by rune: \<open>for _, r := range s\<close>, \<open>strings.EqualFold\<close>,
  \<open>strings.ToLower\<close> and the regular expression \<open>\W\<close> all decode UTF-8 first. A Go string
  is therefore modelled by the sequence of its code points, a rune being a natural number.
  The model covers the strings that are valid UTF-8; on those, the byte-level operations the
  code also uses (\<open>==\<close>, \<open>+\<close>, \<open>strings.HasPrefix\<close>, \<open>strings.ReplaceAll\<close> with ASCII patterns,
  \<open>result[0]\<close> compared with ASCII digits, \<open>%s\<close>) agree with the same operations on runes.
\<close>

type_synonym rune = nat
type_synonym gostring = "rune list"

definition str :: "string \<Rightarrow> gostring" where
  \<comment> \<open>an ASCII string literal of the source, as runes\<close>
  "str s = map of_char s"

definition chr :: "char \<Rightarrow> rune" where
  \<comment> \<open>a rune literal of the source, such as \<open>'A'\<close>\<close>
  "chr c = of_char c"

definition MaxASCII :: rune where
  "MaxASCII = 127"

text \<open>
  The tables of Go's \<open>unicode\<close> package are not part of the repository. Their behaviour on
  ASCII is written out below as the package documents it; their behaviour on every other
  rune is a parameter of the model: \<open>tblFoldEq U a b\<close> says that \<open>b\<close> lies on the
  \<open>unicode.SimpleFold\<close> orbit of \<open>a\<close>.
\<close>

record unicode_tables =
  tblLetter :: "rune \<Rightarrow> bool"
  tblDigit :: "rune \<Rightarrow> bool"
  tblUpper :: "rune \<Rightarrow> bool"
  tblToUpper :: "rune \<Rightarrow> rune"
  tblToLower :: "rune \<Rightarrow> rune"
  tblFoldEq :: "rune \<Rightarrow> rune \<Rightarrow> bool"

definition asciiUpper :: "rune \<Rightarrow> bool" where
  "asciiUpper r = (chr CHR ''A'' \<le> r \<and> r \<le> chr CHR ''Z'')"

definition asciiLower :: "rune \<Rightarrow> bool" where
  "asciiLower r = (chr CHR ''a'' \<le> r \<and> r \<le> chr CHR ''z'')"

definition asciiDigit :: "rune \<Rightarrow> bool" where
  "asciiDigit r = (chr CHR ''0'' \<le> r \<and> r \<le> chr CHR ''9'')"

definition unicode_IsLetter :: "unicode_tables \<Rightarrow> rune \<Rightarrow> bool" where
  "unicode_IsLetter U r =
     (if r \<le> MaxASCII then asciiUpper r \<or> asciiLower r else tblLetter U r)"

definition unicode_IsDigit :: "unicode_tables \<Rightarrow> rune \<Rightarrow> bool" where
  "unicode_IsDigit U r = (if r \<le> MaxASCII then asciiDigit r else tblDigit U r)"

definition unicode_IsUpper :: "unicode_tables \<Rightarrow> rune \<Rightarrow> bool" where
  "unicode_IsUpper U r = (if r \<le> MaxASCII then asciiUpper r else tblUpper U r)"

definition unicode_ToUpper :: "unicode_tables \<Rightarrow> rune \<Rightarrow> rune" where
  "unicode_ToUpper U r =
     (if r \<le> MaxASCII
      then (if asciiLower r then r - (chr CHR ''a'' - chr CHR ''A'') else r)
      else tblToUpper U r)"

definition unicode_ToLower :: "unicode_tables \<Rightarrow> rune \<Rightarrow> rune" where
  "unicode_ToLower U r =
     (if r \<le> MaxASCII
      then (if asciiUpper r then r + (chr CHR ''a'' - chr CHR ''A'') else r)
      else tblToLower U r)"

definition strings_ToLower :: "unicode_tables \<Rightarrow> gostring \<Rightarrow> gostring" where
  "strings_ToLower U s = map (unicode_ToLower U) s"

definition foldEq :: "unicode_tables \<Rightarrow> rune \<Rightarrow> rune \<Rightarrow> bool" where
  \<comment> \<open>one step of \<open>strings.EqualFold\<close>: the runes \<open>a\<close> and \<open>b\<close> are equal under case folding\<close>
  "foldEq U a b =
     (a = b \<or>
      (let sr = min a b; tr = max a b in
       if tr \<le> MaxASCII
       then asciiUpper sr \<and> tr = sr + (chr CHR ''a'' - chr CHR ''A'')
       else tblFoldEq U sr tr))"

definition strings_EqualFold :: "unicode_tables \<Rightarrow> gostring \<Rightarrow> gostring \<Rightarrow> bool" where
  "strings_EqualFold U s t = list_all2 (foldEq U) s t"

definition strings_HasPrefix :: "gostring \<Rightarrow> gostring \<Rightarrow> bool" where
  "strings_HasPrefix s p = prefix p s"

section \<open>Field descriptors and the type mapper\<close>

record fieldDescriptor =
  Name :: gostring
  Type :: gostring
  Size :: int
  Unsigned :: bool
  AllowNull :: bool
  Comment :: gostring

datatype error = Error gostring

definition getType :: "unicode_tables \<Rightarrow> fieldDescriptor \<Rightarrow> error + gostring" where
  "getType U fd =
     (let t = strings_ToLower U (Type fd);
          resolved =
            (if t = str ''tinyint'' then Inr (str ''int8'')
             else if t = str ''smallint'' then Inr (str ''int16'')
             else if t \<in> set (map str [''int'', ''mediumint'']) then Inr (str ''int32'')
             else if t \<in> set (map str [''bigint'', ''integer'']) then Inr (str ''int64'')
             else if t \<in> set (map str [''float'', ''double'', ''decimal'', ''real''])
               then Inr (str ''float64'')
             else if t \<in> set (map str [''char'', ''varchar'', ''text'', ''tinytext'',
                 ''mediumtext'', ''longtext'', ''enum'', ''json'', ''numeric'',
                 ''character varying''])
               then Inr (str ''string'')
             else if t \<in> set (map str [''datetime'', ''date'', ''time'', ''timestamp''])
               then Inr (str ''time.Time'')
             else if t \<in> set (map str [''binary'', ''varbinary'', ''blob'', ''tinyblob'',
                 ''mediumblob'', ''longblob''])
               then Inr (str ''string'')
             else if t \<in> set (map str [''geometry'', ''point'', ''linestring'', ''polygon'',
                 ''multipoint'', ''multilinestring'', ''multipolygon'', ''geometrycollection''])
               then Inr (str ''sqlingo.WellKnownBinary'')
             else if t = str ''bit''
               then (if Size fd = 1 then Inr (str ''bool'') else Inr (str ''string''))
             else Inl (Error (str ''unknown field type '' @ Type fd)))
      in case resolved of
           Inl err \<Rightarrow> Inl err
         | Inr goType \<Rightarrow>
             (let goType1 = (if Unsigned fd \<and> strings_HasPrefix goType (str ''int'')
                             then str ''u'' @ goType else goType);
                  goType2 = (if AllowNull fd then str ''*'' @ goType1 else goType1)
              in Inr goType2))"

text \<open>
  The lookup table as the specification documents it: the lower-cased declared type and the
  host type it stands for. \<open>bit\<close> is documented apart, since its host type depends on the size.
\<close>

definition documented_table :: "(string \<times> string) list" where
  "documented_table =
     [(''tinyint'', ''int8''), (''smallint'', ''int16''),
      (''int'', ''int32''), (''mediumint'', ''int32''),
      (''bigint'', ''int64''), (''integer'', ''int64''),
      (''float'', ''float64''), (''double'', ''float64''),
      (''decimal'', ''float64''), (''real'', ''float64''),
      (''char'', ''string''), (''varchar'', ''string''), (''text'', ''string''),
      (''tinytext'', ''string''), (''mediumtext'', ''string''), (''longtext'', ''string''),
      (''enum'', ''string''), (''json'', ''string''), (''numeric'', ''string''),
      (''character varying'', ''string''),
      (''datetime'', ''time.Time''), (''date'', ''time.Time''),
      (''time'', ''time.Time''), (''timestamp'', ''time.Time''),
      (''binary'', ''string''), (''varbinary'', ''string''), (''blob'', ''string''),
      (''tinyblob'', ''string''), (''mediumblob'', ''string''), (''longblob'', ''string''),
      (''geometry'', ''sqlingo.WellKnownBinary''), (''point'', ''sqlingo.WellKnownBinary''),
      (''linestring'', ''sqlingo.WellKnownBinary''), (''polygon'', ''sqlingo.WellKnownBinary''),
      (''multipoint'', ''sqlingo.WellKnownBinary''),
      (''multilinestring'', ''sqlingo.WellKnownBinary''),
      (''multipolygon'', ''sqlingo.WellKnownBinary''),
      (''geometrycollection'', ''sqlingo.WellKnownBinary'')]"

definition documented_host :: "string \<Rightarrow> int \<Rightarrow> string option" where
  "documented_host t sz =
     (if t = ''bit'' then Some (if sz = 1 then ''bool'' else ''string'')
      else map_of documented_table t)"

definition is_integer_type :: "string \<Rightarrow> bool" where
  "is_integer_type g = (g \<in> set [''int8'', ''int16'', ''int32'', ''int64''])"

definition documented_type :: "string \<Rightarrow> bool \<Rightarrow> bool \<Rightarrow> gostring" where
  \<comment> \<open>unsigned widening, then nullable wrapping\<close>
  "documented_type g unsigned nullable =
     (if nullable then str ''*'' else []) @
     (if unsigned \<and> is_integer_type g then str ''u'' else []) @ str g"


section \<open>Identifiers\<close>

definition NL :: rune where
  "NL = 10"

definition TAB :: rune where
  "TAB = 9"

definition DQUOTE :: rune where
  "DQUOTE = 34"

definition BQUOTE :: rune where
  "BQUOTE = 96"

definition isWordChar :: "rune \<Rightarrow> bool" where
  \<comment> \<open>the class \<open>\w\<close> of Go's regexp syntax: ASCII letters, digits and the underscore\<close>
  "isWordChar r = (asciiDigit r \<or> asciiUpper r \<or> asciiLower r \<or> r = chr CHR ''_'')"

definition nonIdentifierRegexp_ReplaceAllString :: "gostring \<Rightarrow> gostring \<Rightarrow> gostring" where
  \<comment> \<open>\<open>nonIdentifierRegexp.ReplaceAllString(src, repl)\<close> for the pattern \<open>\W\<close> and a \<open>repl\<close> without \<open>$\<close>\<close>
  "nonIdentifierRegexp_ReplaceAllString src repl =
     concat (map (\<lambda>r. if isWordChar r then [r] else repl) src)"

definition ensureIdentifier :: "gostring \<Rightarrow> gostring" where
  "ensureIdentifier name =
     (let result = nonIdentifierRegexp_ReplaceAllString name (str ''_'') in
      if (case result of [] \<Rightarrow> True
          | c # _ \<Rightarrow> chr CHR ''0'' \<le> c \<and> c \<le> chr CHR ''9'')
      then str ''_'' @ result
      else result)"

definition newBuffWithBaseHeader :: "gostring \<Rightarrow> gostring" where
  "newBuffWithBaseHeader dbName =
     str ''// This file is generated by sqlmodel (https://github.com/Ficoto/sqlmodel)'' @ [NL] @
     str ''// DO NOT EDIT.'' @ [NL] @
     str ''package '' @ ensureIdentifier dbName @ str '' '' @ [NL, NL]"

text \<open>
  The first loop of \<open>convertToExportedIdentifier\<close>, with its two variables \<open>words\<close> and
  \<open>nextCharShouldBeUpperCase\<close>. \<open>words[len(words)-1] += string(r)\<close> panics on an empty
  slice; \<open>wordsLoopChecked\<close> keeps that branch (\<open>None\<close>), \<open>wordsLoop\<close> is the loop without
  it, and \<open>wordsLoopChecked_total\<close> below shows that from the initial state the two agree.
\<close>

fun wordsLoop :: "unicode_tables \<Rightarrow> gostring \<Rightarrow> gostring list \<Rightarrow> bool \<Rightarrow> gostring list" where
  "wordsLoop U [] words nextCharShouldBeUpperCase = words"
| "wordsLoop U (r # s) words nextCharShouldBeUpperCase =
     (if unicode_IsLetter U r \<or> unicode_IsDigit U r
      then (if nextCharShouldBeUpperCase
            then wordsLoop U s (words @ [[] @ [unicode_ToUpper U r]]) False
            else wordsLoop U s (butlast words @ [last words @ [r]]) False)
      else wordsLoop U s words True)"

fun wordsLoopChecked ::
  "unicode_tables \<Rightarrow> gostring \<Rightarrow> gostring list \<Rightarrow> bool \<Rightarrow> gostring list option" where
  "wordsLoopChecked U [] words nextCharShouldBeUpperCase = Some words"
| "wordsLoopChecked U (r # s) words nextCharShouldBeUpperCase =
     (if unicode_IsLetter U r \<or> unicode_IsDigit U r
      then (if nextCharShouldBeUpperCase
            then wordsLoopChecked U s (words @ [[] @ [unicode_ToUpper U r]]) False
            else (if words = [] then None
                  else wordsLoopChecked U s (butlast words @ [last words @ [r]]) False))
      else wordsLoopChecked U s words True)"

fun forceCase :: "unicode_tables \<Rightarrow> gostring list \<Rightarrow> gostring \<Rightarrow> gostring" where
  \<comment> \<open>the inner loop over \<open>forceCases\<close>: the first match replaces the word\<close>
  "forceCase U [] word = word"
| "forceCase U (caseWord # rest) word =
     (if strings_EqualFold U word caseWord then caseWord else forceCase U rest word)"

definition convertToExportedIdentifier :: "unicode_tables \<Rightarrow> gostring \<Rightarrow> gostring list \<Rightarrow> gostring" where
  "convertToExportedIdentifier U s forceCases =
     (let words = wordsLoop U s [] True;
          result = foldl (\<lambda>result word. result @ forceCase U forceCases word) [] words;
          firstRune = (case result of [] \<Rightarrow> 0 | r # _ \<Rightarrow> r)
      in if result = [] \<or> \<not> unicode_IsUpper U firstRune
         then str ''E'' @ result
         else result)"

section \<open>Files and the terminal\<close>

text \<open>
  The part of the operating system the generator touches: the files by path, the errors
  \<open>os.Stat\<close> and \<open>os.OpenFile\<close> answer with, the values successive calls of \<open>fmt.Scanln\<close>
  store, and the two output streams. \<open>writeFault p = Some n\<close> says that a write to \<open>p\<close>
  stops after \<open>n\<close> characters; the code discards the error of \<open>f.WriteString\<close>.
\<close>

datatype os_error = ErrNotExist | ErrOther error

record world =
  files :: "gostring \<rightharpoonup> gostring"
  statFault :: "gostring \<Rightarrow> error option"
  openFault :: "gostring \<Rightarrow> error option"
  writeFault :: "gostring \<Rightarrow> nat option"
  stdin :: "gostring list"
  stdout :: gostring
  stderr :: gostring

definition os_Stat :: "world \<Rightarrow> gostring \<Rightarrow> os_error option" where
  "os_Stat w path =
     (case statFault w path of
        Some err \<Rightarrow> Some (ErrOther err)
      | None \<Rightarrow> (if files w path = None then Some ErrNotExist else None))"

definition pathExists :: "world \<Rightarrow> gostring \<Rightarrow> bool \<times> os_error option" where
  "pathExists w path =
     (case os_Stat w path of
        None \<Rightarrow> (True, None)
      | Some err \<Rightarrow> (if err = ErrNotExist then (False, None) else (False, Some err)))"

definition fmt_Scanln :: "world \<Rightarrow> gostring \<times> world" where
  \<comment> \<open>the value left in the variable; it stays empty at the end of the input\<close>
  "fmt_Scanln w =
     (case stdin w of [] \<Rightarrow> ([], w) | x # rest \<Rightarrow> (x, w\<lparr>stdin := rest\<rparr>))"

definition writeToFile :: "gostring \<Rightarrow> gostring \<Rightarrow> bool \<Rightarrow> world \<Rightarrow> error option \<times> world" where
  "writeToFile buffer outputFile force w =
     (let exists = fst (pathExists w outputFile);
          (skip, w1) =
            (if exists \<and> \<not> force
             then (let wp = w\<lparr>stdout := stdout w @ str ''file('' @ outputFile @
                               str '') already exists'' @ [0xFF0C] @
                               str ''is overwritten(Y/N)? ''\<rparr>;
                       (override, ws) = fmt_Scanln wp
                   in if override \<noteq> str ''Y'' \<and> override \<noteq> str ''y''
                      then (True, ws\<lparr>stdout := stdout ws @ str ''skip'' @ outputFile @ [NL]\<rparr>)
                      else (False, ws))
             else (False, w))
      in if skip then (None, w1)
         else (case openFault w1 outputFile of
                 Some err \<Rightarrow> (Some err, w1)
               | None \<Rightarrow>
                   (None, w1\<lparr>files := (files w1)(outputFile \<mapsto>
                      (case writeFault w1 outputFile of
                         None \<Rightarrow> buffer
                       | Some n \<Rightarrow> take n buffer))\<rparr>)))"

section \<open>Rendering a table\<close>

text \<open>
  \<open>getTag\<close> and \<open>Generate\<close> read and write \<open>options.tag\<close>, a string filled from the flag
  \<open>-tag\<close>, and the record follows that use. (The struct declaration that comes with the
  sources lists a field \<open>tags\<close> of type \<open>[]string\<close> in its place, which no function uses.)
\<close>

record options =
  dataSourceName :: gostring
  tableNames :: "gostring list"
  tag :: gostring
  forceCases :: "gostring list"

record schemaFetcher =
  GetDatabaseName :: "error + gostring"
  GetTableNames :: "error + gostring list"
  GetFieldDescriptors :: "gostring \<Rightarrow> error + fieldDescriptor list"
  QuoteIdentifier :: "gostring \<Rightarrow> gostring"

definition getTag :: "fieldDescriptor \<Rightarrow> options \<Rightarrow> gostring" where
  "getTag fd opts =
     (if tag opts = str ''gorm''
      then [BQUOTE] @ str ''gorm:'' @ [DQUOTE] @ str ''column:'' @ Name fd @ [DQUOTE] @ [BQUOTE]
      else [])"

definition strings_ReplaceAll :: "gostring \<Rightarrow> rune \<Rightarrow> gostring \<Rightarrow> gostring" where
  \<comment> \<open>\<open>strings.ReplaceAll(s, old, new)\<close> for a pattern \<open>old\<close> of one ASCII character\<close>
  "strings_ReplaceAll s old new = concat (map (\<lambda>r. if r = old then new else [r]) s)"

fun fieldLoop ::
  "unicode_tables \<Rightarrow> options \<Rightarrow> fieldDescriptor list \<Rightarrow> gostring \<Rightarrow> bool \<Rightarrow>
   error + (gostring \<times> bool)" where
  "fieldLoop U opts [] modeLinesBuf isNeedImportTime = Inr (modeLinesBuf, isNeedImportTime)"
| "fieldLoop U opts (fd # rest) modeLinesBuf isNeedImportTime =
     (let goName = convertToExportedIdentifier U (Name fd) (forceCases opts) in
      case getType U fd of
        Inl err \<Rightarrow> Inl err
      | Inr goType \<Rightarrow>
          (let commentLine =
                 (if Comment fd \<noteq> []
                  then [TAB] @ str ''// '' @ strings_ReplaceAll (Comment fd) NL (str '' '') @ [NL]
                  else []);
               buf1 = modeLinesBuf @ commentLine;
               buf2 = buf1 @ [TAB] @ goName @ str '' '' @ goType @ str '' '' @
                      getTag fd opts @ [NL];
               need = (if Type fd \<in> set (map str [''datetime'', ''date'', ''time'', ''timestamp''])
                       then True else isNeedImportTime)
           in fieldLoop U opts rest buf2 need))"

definition generateTable ::
  "unicode_tables \<Rightarrow> gostring \<Rightarrow> schemaFetcher \<Rightarrow> gostring \<Rightarrow> gostring \<Rightarrow> options \<Rightarrow> world \<Rightarrow>
   error option \<times> world" where
  \<comment> \<open>the second argument is the flag \<open>-o\<close>, the package variable \<open>outputPath\<close>\<close>
  "generateTable U outputPath sf dbName tableName opts w =
     (case GetFieldDescriptors sf tableName of
        Inl err \<Rightarrow> (Some err, w)
      | Inr fieldDescriptors \<Rightarrow>
          (let className = convertToExportedIdentifier U tableName (forceCases opts) in
           case fieldLoop U opts fieldDescriptors [] False of
             Inl err \<Rightarrow> (Some err, w)
           | Inr (modeLinesBuf, isNeedImportTime) \<Rightarrow>
               (let buf0 = newBuffWithBaseHeader dbName;
                    buf1 = (if isNeedImportTime
                            then buf0 @ str ''import '' @ [DQUOTE] @ str ''time'' @ [DQUOTE] @ [NL, NL]
                            else buf0);
                    buf2 = buf1 @ str ''type '' @ className @ str '' struct {'' @ [NL];
                    buf3 = buf2 @ modeLinesBuf;
                    buf4 = buf3 @ str ''}'' @ [NL, NL];
                    buf5 = buf4 @ str ''func (m '' @ className @ str '') TableName() string {'' @ [NL];
                    buf6 = buf5 @ [TAB] @ str ''return '' @ [DQUOTE] @ tableName @ [DQUOTE] @ [NL];
                    buf7 = buf6 @ str ''}'' @ [NL, NL]
                in writeToFile buf7 (outputPath @ str ''/'' @ tableName @ str ''.go'') True w)))"


section \<open>The generator driver\<close>

text \<open>
  \<open>Generate\<close> reads five flags, opens the database and picks the schema fetcher of the
  driver. \<open>sql.Open\<close> and the three fetcher constructors are not among these sources
  and are parameters; a database handle is identified by the driver and the data source
  it was opened with. The function leaves either by returning an error value
  or through \<open>os.Exit\<close>.
\<close>

record flags =
  flag_o :: gostring
  flag_dbc :: gostring
  flag_t :: gostring
  flag_tag :: gostring
  flag_forcecases :: gostring

type_synonym db = "gostring \<times> gostring"

record environment =
  args0 :: gostring
  sql_Open :: "gostring \<Rightarrow> gostring \<Rightarrow> error + db"
  newMySQLSchemaFetcher :: "db \<Rightarrow> schemaFetcher"
  newSQLite3SchemaFetcher :: "db \<Rightarrow> schemaFetcher"
  newPostgresSchemaFetcher :: "db \<Rightarrow> schemaFetcher"

datatype outcome = Exit int | Return "error option"

fun strings_Split :: "gostring \<Rightarrow> rune \<Rightarrow> gostring list" where
  \<comment> \<open>\<open>strings.Split(s, sep)\<close> for a separator of one ASCII character\<close>
  "strings_Split [] sep = [[]]"
| "strings_Split (r # s) sep =
     (if r = sep then [] # strings_Split s sep
      else (case strings_Split s sep of
              [] \<Rightarrow> [[r]]
            | word # rest \<Rightarrow> (r # word) # rest))"

definition printUsageAndExit :: "environment \<Rightarrow> gostring \<Rightarrow> world \<Rightarrow> outcome \<times> world" where
  "printUsageAndExit env exampleDataSourceName w =
     (let cmd = args0 env in
      (Exit 1,
       w\<lparr>stderr := stderr w @
          str ''Usage:'' @ [NL, TAB] @ cmd @
          str '' -o outpath -dbc databaseConnection [-t table1,table2,...] [-tag gorm,json,pg] [-forcecases ID,IDs,HTML]'' @
          [NL] @ str ''Example:'' @ [NL, TAB] @ cmd @ str '' '' @ [DQUOTE] @
          (str ''-o ./ -d '' @ exampleDataSourceName) @ [DQUOTE] @ [NL]\<rparr>))"

definition getSchemaFetcherFactory ::
  "environment \<Rightarrow> gostring \<Rightarrow> (db \<Rightarrow> schemaFetcher) option" where
  \<comment> \<open>\<open>None\<close>: the default case, which prints to the standard error and exits with status 2\<close>
  "getSchemaFetcherFactory env driverName =
     (if driverName = str ''mysql'' then Some (newMySQLSchemaFetcher env)
      else if driverName = str ''sqlite3'' then Some (newSQLite3SchemaFetcher env)
      else if driverName = str ''postgres'' then Some (newPostgresSchemaFetcher env)
      else None)"

definition println_Generating :: "gostring \<Rightarrow> world \<Rightarrow> world" where
  \<comment> \<open>the builtin \<open>println("Generating", tableName)\<close>, which writes to the standard error\<close>
  "println_Generating tableName w =
     w\<lparr>stderr := stderr w @ str ''Generating'' @ str '' '' @ tableName @ [NL]\<rparr>"

fun Generate_tables ::
  "unicode_tables \<Rightarrow> gostring \<Rightarrow> schemaFetcher \<Rightarrow> gostring \<Rightarrow> options \<Rightarrow> gostring list \<Rightarrow>
   world \<Rightarrow> error option \<times> world" where
  \<comment> \<open>the loop over \<open>options.tableNames\<close> that ends \<open>Generate\<close>\<close>
  "Generate_tables U outputPath sf dbName opts [] w = (None, w)"
| "Generate_tables U outputPath sf dbName opts (tableName # rest) w =
     (let w1 = println_Generating tableName w;
          (err, w2) = generateTable U outputPath sf dbName tableName opts w1
      in if err \<noteq> None then (err, w2)
         else Generate_tables U outputPath sf dbName opts rest w2)"

definition Generate ::
  "unicode_tables \<Rightarrow> environment \<Rightarrow> flags \<Rightarrow> gostring \<Rightarrow> gostring \<Rightarrow> world \<Rightarrow> outcome \<times> world" where
  "Generate U env fl driverName exampleDataSourceName w =
     (if length (flag_o fl) = 0 then printUsageAndExit env exampleDataSourceName w
      else if length (flag_dbc fl) = 0 then printUsageAndExit env exampleDataSourceName w
      else
        (let opts0 = \<lparr>dataSourceName = flag_dbc fl,
                      tableNames = (if length (flag_t fl) \<noteq> 0
                                    then strings_Split (flag_t fl) (chr CHR '','') else []),
                      tag = (if length (flag_tag fl) \<noteq> 0 then flag_tag fl else []),
                      forceCases = (if length (flag_forcecases fl) \<noteq> 0
                                    then strings_Split (flag_forcecases fl) (chr CHR '','')
                                    else [])\<rparr>
         in case sql_Open env driverName (dataSourceName opts0) of
              Inl err \<Rightarrow> (Return (Some err), w)
            | Inr db \<Rightarrow>
                (case getSchemaFetcherFactory env driverName of
                   None \<Rightarrow>
                     (Exit 2, w\<lparr>stderr := stderr w @ str ''unsupported driver '' @
                                            driverName @ [NL]\<rparr>)
                 | Some schemaFetcherFactory \<Rightarrow>
                     (let sf = schemaFetcherFactory db in
                      case GetDatabaseName sf of
                        Inl err \<Rightarrow> (Return (Some err), w)
                      | Inr dbName \<Rightarrow>
                          (if dbName = []
                           then (Return (Some (Error (str ''no database selected''))), w)
                           else
                             (case (if length (tableNames opts0) = 0
                                    then GetTableNames sf
                                    else Inr (tableNames opts0)) of
                                Inl err \<Rightarrow> (Return (Some err), w)
                              | Inr names \<Rightarrow>
                                  (let opts = opts0\<lparr>tableNames := names\<rparr>;
                                       (err, w') = Generate_tables U (flag_o fl) sf dbName opts
                                                     (tableNames opts) w
                                   in (Return err, w'))))))))"

section \<open>Notions used in the statements\<close>



definition substituted :: "gostring \<Rightarrow> gostring" where
  \<comment> \<open>the name with every character that is not a word character replaced by an underscore\<close>
  "substituted name = map (\<lambda>r. if isWordChar r then r else chr CHR ''_'') name"

fun firstTypeError :: "unicode_tables \<Rightarrow> fieldDescriptor list \<Rightarrow> error option" where
  \<comment> \<open>the error of the first descriptor, in order, that \<open>getType\<close> rejects\<close>
  "firstTypeError U [] = None"
| "firstTypeError U (fd # rest) =
     (case getType U fd of Inl err \<Rightarrow> Some err | Inr goType \<Rightarrow> firstTypeError U rest)"

definition fieldText :: "unicode_tables \<Rightarrow> options \<Rightarrow> fieldDescriptor \<Rightarrow> gostring" where
  \<comment> \<open>what one column adds to the struct: its comment line, if any, and its field line\<close>
  "fieldText U opts fd =
     (case getType U fd of
        Inl err \<Rightarrow> []
      | Inr goType \<Rightarrow>
          (if Comment fd \<noteq> []
           then [TAB] @ str ''// '' @ strings_ReplaceAll (Comment fd) NL (str '' '') @ [NL]
           else []) @
          [TAB] @ convertToExportedIdentifier U (Name fd) (forceCases opts) @ str '' '' @
          goType @ str '' '' @ getTag fd opts @ [NL])"

definition needsTime :: "fieldDescriptor \<Rightarrow> bool" where
  \<comment> \<open>the test that sets \<open>isNeedImportTime\<close>: on the declared type as it is\<close>
  "needsTime fd = (Type fd \<in> set (map str [''datetime'', ''date'', ''time'', ''timestamp'']))"

definition tableText ::
  "unicode_tables \<Rightarrow> gostring \<Rightarrow> gostring \<Rightarrow> options \<Rightarrow> fieldDescriptor list \<Rightarrow> gostring" where
  \<comment> \<open>the generated file, part by part\<close>
  "tableText U dbName tableName opts fds =
     newBuffWithBaseHeader dbName @
     (if list_ex needsTime fds
      then str ''import '' @ [DQUOTE] @ str ''time'' @ [DQUOTE] @ [NL, NL] else []) @
     str ''type '' @ convertToExportedIdentifier U tableName (forceCases opts) @
     str '' struct {'' @ [NL] @
     concat (map (fieldText U opts) fds) @
     str ''}'' @ [NL, NL] @
     str ''func (m '' @ convertToExportedIdentifier U tableName (forceCases opts) @
     str '') TableName() string {'' @ [NL] @
     [TAB] @ str ''return '' @ [DQUOTE] @ tableName @ [DQUOTE] @ [NL] @
     str ''}'' @ [NL, NL]"

definition goFilePath :: "gostring \<Rightarrow> gostring \<Rightarrow> gostring" where
  "goFilePath outputPath tableName = outputPath @ str ''/'' @ tableName @ str ''.go''"

definition supportedTypes :: "gostring list" where
  \<comment> \<open>the case labels of the switch in \<open>getType\<close>\<close>
  "supportedTypes = map str (map fst documented_table @ [''bit''])"

definition gormTag :: "gostring \<Rightarrow> gostring" where
  \<comment> \<open>the struct tag that names a column for gorm\<close>
  "gormTag column = [BQUOTE] @ str ''gorm:'' @ [DQUOTE] @ str ''column:'' @ column @ [DQUOTE] @ [BQUOTE]"




definition Generate_options :: "flags \<Rightarrow> gostring list \<Rightarrow> options" where
  \<comment> \<open>the options \<open>Generate\<close> passes to \<open>generateTable\<close>, for the resolved table names\<close>
  "Generate_options fl names =
     \<lparr>dataSourceName = flag_dbc fl, tableNames = names, tag = flag_tag fl,
      forceCases = (if flag_forcecases fl = [] then []
                    else strings_Split (flag_forcecases fl) (chr CHR '',''))\<rparr>"

definition Generate_targets :: "flags \<Rightarrow> schemaFetcher \<Rightarrow> error + gostring list" where
  \<comment> \<open>the table names \<open>Generate\<close> iterates over: the flag \<open>-t\<close>, or else every table\<close>
  "Generate_targets fl sf =
     (if flag_t fl = [] then GetTableNames sf
      else Inr (strings_Split (flag_t fl) (chr CHR '','')))"

section \<open>Concrete inputs\<close>

text \<open>
  Go's tables on the Latin-1 supplement (U+0080 to U+00FF): the letters, the capitals among
  them and the simple case mappings; nothing is said here about runes beyond U+00FF, which
  this instance treats as caseless symbols.
\<close>

definition latin1Upper :: "rune \<Rightarrow> bool" where
  "latin1Upper r = ((0xC0 \<le> r \<and> r \<le> 0xD6) \<or> (0xD8 \<le> r \<and> r \<le> 0xDE))"

definition latin1Lower :: "rune \<Rightarrow> bool" where
  "latin1Lower r = ((0xE0 \<le> r \<and> r \<le> 0xF6) \<or> (0xF8 \<le> r \<and> r \<le> 0xFE))"

definition latin1_tables :: unicode_tables where
  "latin1_tables =
     \<lparr>tblLetter = (\<lambda>r. r \<in> set [0xAA, 0xB5, 0xBA, 0xDF, 0xFF] \<or> latin1Upper r \<or> latin1Lower r),
      tblDigit = (\<lambda>r. False),
      tblUpper = latin1Upper,
      tblToUpper = (\<lambda>r. if latin1Lower r then r - 32
                         else if r = 0xB5 then 0x39C else if r = 0xFF then 0x178 else r),
      tblToLower = (\<lambda>r. if latin1Upper r then r + 32 else r),
      tblFoldEq = (\<lambda>a b. latin1Upper a \<and> b = a + 32)\<rparr>"

definition example_world :: world where
  "example_world =
     \<lparr>files = Map.empty, statFault = (\<lambda>p. None), openFault = (\<lambda>p. None),
      writeFault = (\<lambda>p. None), stdin = [], stdout = [], stderr = []\<rparr>"

definition example_options :: options where
  "example_options =
     \<lparr>dataSourceName = str ''root@/shop'', tableNames = [], tag = str ''gorm'',
      forceCases = [str ''ID'']\<rparr>"

definition example_field :: "string \<Rightarrow> string \<Rightarrow> fieldDescriptor" where
  "example_field n t =
     \<lparr>Name = str n, Type = str t, Size = 0, Unsigned = False, AllowNull = False, Comment = []\<rparr>"

definition example_fetcher :: "fieldDescriptor list \<Rightarrow> schemaFetcher" where
  "example_fetcher fds =
     \<lparr>GetDatabaseName = Inr (str ''shop''), GetTableNames = Inr [str ''events''],
      GetFieldDescriptors = (\<lambda>t. Inr fds), QuoteIdentifier = (\<lambda>i. i)\<rparr>"

definition example_fields :: "fieldDescriptor list" where
  "example_fields = [example_field ''user_id'' ''int'']"

definition example_path :: gostring where
  "example_path = goFilePath (str ''out'') (str ''events'')"

definition occupied_world :: world where
  \<comment> \<open>the output file is there already, and the user answers \<open>n\<close>\<close>
  "occupied_world =
     example_world\<lparr>files := [example_path \<mapsto> str ''package old''], stdin := [str ''n'']\<rparr>"

definition example_env :: environment where
  "example_env =
     \<lparr>args0 = str ''sqlm-gen-mysql'', sql_Open = (\<lambda>driverName dsn. Inr (driverName, dsn)),
      newMySQLSchemaFetcher =
        (\<lambda>db. example_fetcher [example_field ''id'' ''int'', example_field ''payload'' ''JSONB'']),
      newSQLite3SchemaFetcher = (\<lambda>db. example_fetcher []),
      newPostgresSchemaFetcher = (\<lambda>db. example_fetcher [])\<rparr>"

definition example_flags :: flags where
  "example_flags =
     \<lparr>flag_o = str ''out'', flag_dbc = str ''root@/shop'', flag_t = str ''events,users'',
      flag_tag = [], flag_forcecases = []\<rparr>"

definition generated_events :: "bool \<Rightarrow> gostring" where
  \<comment> \<open>the file for a table \<open>events\<close> with one timestamp column, with or without the import\<close>
  "generated_events withImport =
     str ''// This file is generated by sqlmodel (https://github.com/Ficoto/sqlmodel)'' @ [NL] @
     str ''// DO NOT EDIT.'' @ [NL] @
     str ''package shop '' @ [NL, NL] @
     (if withImport then str ''import '' @ [DQUOTE] @ str ''time'' @ [DQUOTE] @ [NL, NL] else []) @
     str ''type Events struct {'' @ [NL] @
     [TAB] @ str ''CreatedAt time.Time '' @ gormTag (str ''created_at'') @ [NL] @
     str ''}'' @ [NL, NL] @
     str ''func (m Events) TableName() string {'' @ [NL] @
     [TAB] @ str ''return '' @ [DQUOTE] @ str ''events'' @ [DQUOTE] @ [NL] @
     str ''}'' @ [NL, NL]"

section \<open>Literals\<close>

lemma str_inj [simp]: "(str a = str b) = (a = b)"
  unfolding str_def by (simp add: inj_map_eq_map inj_on_def)

lemma str_append: "str (a @ b) = str a @ str b"
  by (simp add: str_def)

lemma prefix_map_inj: "inj f \<Longrightarrow> prefix (map f xs) (map f ys) = prefix xs ys"
proof (induction xs arbitrary: ys)
  case Nil
  then show ?case by simp
next
  case (Cons x xs)
  then show ?case by (cases ys) (auto simp: inj_eq)
qed

lemma str_prefix [simp]: "prefix (str a) (str b) = prefix a b"
  unfolding str_def by (rule prefix_map_inj) (simp add: inj_on_def)

section \<open>The type mapper\<close>

lemma table_rows:
  "list_all (\<lambda>(k, h). \<forall>U fd. strings_ToLower U (Type fd) = str k \<longrightarrow>
      getType U fd = Inr (documented_type h (Unsigned fd) (AllowNull fd))) documented_table"
  unfolding documented_table_def
  by (simp add: getType_def Let_def documented_type_def is_integer_type_def strings_HasPrefix_def)

lemma bit_row:
  "strings_ToLower U (Type fd) = str ''bit'' \<Longrightarrow>
   getType U fd = Inr (documented_type (if Size fd = 1 then ''bool'' else ''string'')
                        (Unsigned fd) (AllowNull fd))"
  by (simp add: getType_def Let_def documented_type_def is_integer_type_def strings_HasPrefix_def)

lemma resolved_host:
  assumes "strings_ToLower U (Type fd) = str t" and "documented_host t (Size fd) = Some g"
  shows "getType U fd = Inr (documented_type g (Unsigned fd) (AllowNull fd))"
proof (cases "t = ''bit''")
  case True
  with assms show ?thesis using bit_row[of U fd] by (simp add: documented_host_def)
next
  case False
  with assms(2) have "(t, g) \<in> set documented_table"
    by (simp add: documented_host_def map_of_SomeD)
  with table_rows assms(1) show ?thesis
    by (auto simp: list_all_iff)
qed

lemma host_values:
  assumes "documented_host t sz = Some g"
  shows "g \<in> set [''int8'', ''int16'', ''int32'', ''int64'', ''float64'', ''string'',
                   ''time.Time'', ''sqlingo.WellKnownBinary'', ''bool'']"
proof (cases "t = ''bit''")
  case True
  with assms show ?thesis by (auto simp: documented_host_def split: if_splits)
next
  case False
  with assms have "(t, g) \<in> set documented_table"
    by (simp add: documented_host_def map_of_SomeD)
  then have "g \<in> snd ` set documented_table" by force
  then show ?thesis unfolding documented_table_def by auto
qed

lemma documented_type_str:
  "documented_type g u n =
     str ((if n then ''*'' else []) @ (if u \<and> is_integer_type g then ''u'' else []) @ g)"
  by (simp add: documented_type_def str_def)

lemma host_no_star:
  assumes "documented_host t sz = Some g"
  shows "\<not> prefix ''*'' g" and "\<not> prefix ''*'' (''u'' @ g)" and "''u'' @ g \<noteq> g"
    and "''*'' @ g \<noteq> ''u'' @ g" and "''*'' @ g \<noteq> ''*u'' @ g" and "g \<noteq> ''*u'' @ g"
  using host_values[OF assms] by auto

lemma documented_type_star:
  assumes "documented_host t sz = Some g"
  shows "prefix (str ''*'') (documented_type g u n) = n"
  using host_no_star[OF assms] by (simp add: documented_type_str)

lemma documented_type_widened:
  assumes "documented_host t sz = Some g"
  shows "(documented_type g u n \<in> {str ''u'' @ str g, str ''*'' @ str ''u'' @ str g})
         = (u \<and> is_integer_type g)"
  using host_no_star[OF assms]
  by (simp add: documented_type_str str_append[symmetric])

text \<open>
  C1. Whenever the lower-cased declared type is a row of the documented table (\<open>bit\<close>
  resolved by the size), \<open>getType\<close> returns the documented host type, with \<open>u\<close> in front
  exactly when the descriptor is unsigned and the host type is an integer type, and with
  \<open>*\<close> in front exactly when the descriptor allows null.
\<close>

theorem getType_documented:
  assumes "strings_ToLower U (Type fd) = str t"
      and "documented_host t (Size fd) = Some g"
  shows "getType U fd = Inr (documented_type g (Unsigned fd) (AllowNull fd))
       \<and> (case getType U fd of Inl err \<Rightarrow> False | Inr ty \<Rightarrow> prefix (str ''*'') ty)
           = AllowNull fd
       \<and> (getType U fd \<in> {Inr (str ''u'' @ str g), Inr (str ''*'' @ str ''u'' @ str g)})
           = (Unsigned fd \<and> is_integer_type g)"
proof -
  have eq: "getType U fd = Inr (documented_type g (Unsigned fd) (AllowNull fd))"
    using assms by (rule resolved_host)
  have star: "prefix (str ''*'') (documented_type g (Unsigned fd) (AllowNull fd)) = AllowNull fd"
    using assms(2) by (rule documented_type_star)
  have wide: "(documented_type g (Unsigned fd) (AllowNull fd)
                 \<in> {str ''u'' @ str g, str ''*'' @ str ''u'' @ str g})
              = (Unsigned fd \<and> is_integer_type g)"
    using assms(2) by (rule documented_type_widened)
  show ?thesis unfolding eq using star wide by simp
qed

theorem getType_documented_witness:
  "strings_ToLower latin1_tables
     (Type \<lparr>Name = str ''id'', Type = str ''BigInt'', Size = 20, Unsigned = True,
            AllowNull = True, Comment = []\<rparr>) = str ''bigint''
   \<and> documented_host ''bigint'' 20 = Some ''int64''
   \<and> getType latin1_tables
       \<lparr>Name = str ''id'', Type = str ''BigInt'', Size = 20, Unsigned = True,
        AllowNull = True, Comment = []\<rparr> = Inr (str ''*uint64'')"
proof -
  let ?fd = "\<lparr>Name = str ''id'', Type = str ''BigInt'', Size = 20, Unsigned = True,
              AllowNull = True, Comment = []\<rparr>"
  have low: "strings_ToLower latin1_tables (Type ?fd) = str ''bigint''"
    by (simp add: strings_ToLower_def unicode_ToLower_def str_def MaxASCII_def asciiUpper_def
        chr_def)
  have host20: "documented_host ''bigint'' 20 = Some ''int64''"
    by (simp add: documented_host_def documented_table_def)
  then have host: "documented_host ''bigint'' (Size ?fd) = Some ''int64''"
    by simp
  have ty: "documented_type ''int64'' (Unsigned ?fd) (AllowNull ?fd) = str ''*uint64''"
    by (simp add: documented_type_def is_integer_type_def str_def)
  have "getType latin1_tables ?fd = Inr (str ''*uint64'')"
    using getType_documented[OF low host, THEN conjunct1] unfolding ty .
  with low host20 show ?thesis by (intro conjI)
qed

section \<open>The identifier normalizer\<close>

lemmas ascii_defs = MaxASCII_def asciiUpper_def asciiLower_def asciiDigit_def chr_def

lemmas unicode_defs = unicode_IsLetter_def unicode_IsDigit_def unicode_IsUpper_def
  unicode_ToUpper_def unicode_ToLower_def

lemma wordsLoopChecked_total_aux:
  "(\<not> next \<longrightarrow> words \<noteq> []) \<Longrightarrow>
   wordsLoopChecked U s words next = Some (wordsLoop U s words next)"
  by (induction s arbitrary: words "next") auto

lemma wordsLoopChecked_total:
  "wordsLoopChecked U s [] True = Some (wordsLoop U s [] True)"
  by (rule wordsLoopChecked_total_aux) simp

















text \<open>
  C7. The three documented examples, whatever the Unicode tables say beyond ASCII.
\<close>

theorem normalizer_examples:
  "convertToExportedIdentifier U (str ''user_id'') [str ''ID''] = str ''UserID''
   \<and> convertToExportedIdentifier U (str ''html_content'') [str ''HTML''] = str ''HTMLContent''
   \<and> convertToExportedIdentifier U (str ''2fa_token'') [] = str ''E2faToken''"
  by (simp add: convertToExportedIdentifier_def str_def unicode_defs ascii_defs
      strings_EqualFold_def foldEq_def Let_def)

section \<open>The package identifier\<close>

lemma ReplaceAllString_substituted:
  "nonIdentifierRegexp_ReplaceAllString name (str ''_'') = substituted name"
  unfolding nonIdentifierRegexp_ReplaceAllString_def substituted_def
  by (induction name) (auto simp: str_def chr_def)

lemma substituted_word: "list_all isWordChar (substituted name)"
  by (induction name) (auto simp: substituted_def isWordChar_def)

lemma ensureIdentifier_substituted:
  "ensureIdentifier name =
     (if substituted name = [] \<or> asciiDigit (hd (substituted name))
      then chr CHR ''_'' # substituted name else substituted name)"
  unfolding ensureIdentifier_def ReplaceAllString_substituted Let_def
  by (cases "substituted name") (auto simp: asciiDigit_def str_def chr_def)

text \<open>
  C10. The package identifier of the header is never empty, consists of word characters
  only and does not begin with a digit; it is the database name with every other character
  replaced by an underscore, with one more underscore in front exactly when that string is
  empty or begins with a digit. The header ends with the package line that carries it.
\<close>

theorem ensureIdentifier_identifier:
  "ensureIdentifier name \<noteq> []
   \<and> list_all isWordChar (ensureIdentifier name)
   \<and> \<not> asciiDigit (hd (ensureIdentifier name))
   \<and> ensureIdentifier name =
       (if substituted name = [] \<or> asciiDigit (hd (substituted name))
        then chr CHR ''_'' # substituted name else substituted name)
   \<and> length (substituted name) = length name
   \<and> suffix (str ''package '' @ ensureIdentifier name @ str '' '' @ [NL, NL])
        (newBuffWithBaseHeader name)"
proof -
  have u: "isWordChar (chr CHR ''_'')" "\<not> asciiDigit (chr CHR ''_'')"
    by (simp_all add: isWordChar_def ascii_defs)
  have "suffix (str ''package '' @ ensureIdentifier name @ str '' '' @ [NL, NL])
          (newBuffWithBaseHeader name)"
    unfolding newBuffWithBaseHeader_def suffix_def by simp
  moreover have "length (substituted name) = length name"
    by (simp add: substituted_def)
  ultimately show ?thesis
    unfolding ensureIdentifier_substituted
    using u substituted_word[of name] by auto
qed

section \<open>Rendering\<close>

lemma fieldLoop_char:
  "fieldLoop U opts fds buf need =
     (case firstTypeError U fds of
        Some err \<Rightarrow> Inl err
      | None \<Rightarrow> Inr (buf @ concat (map (fieldText U opts) fds), need \<or> list_ex needsTime fds))"
proof (induction fds arbitrary: buf need)
  case Nil
  then show ?case by simp
next
  case (Cons fd rest)
  show ?case
  proof (cases "getType U fd")
    case (Inl err)
    then show ?thesis by simp
  next
    case (Inr goType)
    then show ?thesis
      by (simp add: Cons.IH Let_def fieldText_def needsTime_def split: option.splits)
  qed
qed

lemma writeToFile_forced:
  "writeToFile buffer path True w =
     (case openFault w path of
        Some err \<Rightarrow> (Some err, w)
      | None \<Rightarrow>
          (None, w\<lparr>files := (files w)(path \<mapsto>
             (case writeFault w path of None \<Rightarrow> buffer | Some n \<Rightarrow> take n buffer))\<rparr>))"
  by (simp add: writeToFile_def Let_def)

lemma generateTable_char:
  "generateTable U outputPath sf dbName tableName opts w =
     (case GetFieldDescriptors sf tableName of
        Inl err \<Rightarrow> (Some err, w)
      | Inr fds \<Rightarrow>
          (case firstTypeError U fds of
             Some err \<Rightarrow> (Some err, w)
           | None \<Rightarrow>
               writeToFile (tableText U dbName tableName opts fds)
                 (goFilePath outputPath tableName) True w))"
  by (simp add: generateTable_def fieldLoop_char tableText_def goFilePath_def Let_def
           split: sum.splits option.splits)

lemma firstTypeError_append:
  "firstTypeError U pre = None \<Longrightarrow> firstTypeError U (pre @ rest) = firstTypeError U rest"
  by (induction pre) (auto split: sum.splits)


lemma generateTable_idem:
  "generateTable U outputPath sf dbName tableName opts
     (snd (generateTable U outputPath sf dbName tableName opts w)) =
   generateTable U outputPath sf dbName tableName opts w"
  by (simp add: generateTable_char writeToFile_forced split: sum.splits option.splits)

lemma generateTable_written:
  assumes "GetFieldDescriptors sf tableName = Inr fds"
      and "fst (generateTable U outputPath sf dbName tableName opts w) = None"
      and "writeFault w (goFilePath outputPath tableName) = None"
  shows "files (snd (generateTable U outputPath sf dbName tableName opts w))
           (goFilePath outputPath tableName) = Some (tableText U dbName tableName opts fds)"
  using assms
  by (auto simp: generateTable_char writeToFile_forced split: sum.splits option.splits)

section \<open>Unknown column types\<close>

lemma unknown_getType:
  assumes "strings_ToLower U (Type fd) \<notin> set supportedTypes"
  shows "getType U fd = Inl (Error (str ''unknown field type '' @ Type fd))"
  using assms
  by (simp add: getType_def Let_def supportedTypes_def documented_table_def)

lemma supported_host:
  assumes "t \<in> set supportedTypes"
  shows "\<exists>k g. t = str k \<and> documented_host k sz = Some g"
proof -
  from assms obtain k where k: "t = str k" "k \<in> set (map fst documented_table @ [''bit''])"
    by (auto simp: supportedTypes_def)
  show ?thesis
  proof (cases "k = ''bit''")
    case True
    with k show ?thesis by (auto simp: documented_host_def)
  next
    case False
    with k(2) have "k \<in> fst ` set documented_table" by auto
    then obtain g where "map_of documented_table k = Some g"
      by (metis map_of_eq_None_iff not_Some_eq)
    with False k(1) show ?thesis by (auto simp: documented_host_def)
  qed
qed

lemma supported_getType:
  assumes "strings_ToLower U (Type fd) \<in> set supportedTypes"
  shows "\<exists>ty. getType U fd = Inr ty"
proof -
  from supported_host[OF assms, of "Size fd"] obtain k g
    where "strings_ToLower U (Type fd) = str k" "documented_host k (Size fd) = Some g"
    by blast
  then show ?thesis using resolved_host by blast
qed

lemma supported_no_error:
  "list_all (\<lambda>d. strings_ToLower U (Type d) \<in> set supportedTypes) fds \<Longrightarrow>
   firstTypeError U fds = None"
proof (induction fds)
  case Nil
  then show ?case by simp
next
  case (Cons d fds)
  then obtain ty where "getType U d = Inr ty" using supported_getType[of U d] by auto
  with Cons show ?case by simp
qed

lemma first_unknown:
  assumes "list_ex (\<lambda>d. strings_ToLower U (Type d) \<notin> set supportedTypes) fds"
  obtains pre d post where "fds = pre @ d # post"
    and "list_all (\<lambda>d. strings_ToLower U (Type d) \<in> set supportedTypes) pre"
    and "strings_ToLower U (Type d) \<notin> set supportedTypes"
proof -
  from assms have "\<exists>d \<in> set fds. strings_ToLower U (Type d) \<notin> set supportedTypes"
    by (simp add: list_ex_iff)
  then obtain pre d post where "fds = pre @ d # post"
    and "strings_ToLower U (Type d) \<notin> set supportedTypes"
    and "\<forall>y \<in> set pre. \<not> strings_ToLower U (Type y) \<notin> set supportedTypes"
    by (rule split_list_first_propE)
  then show ?thesis by (intro that) (simp_all add: list_all_iff)
qed

text \<open>
  C6. A descriptor whose lower-cased declared type is none of the supported types makes
  \<open>getType\<close> fail with an error that names the declared type. When it is the first such
  descriptor of a table, \<open>generateTable\<close> returns that error and leaves the files and the
  terminal as they were; so a table with any such column is never written.
\<close>

theorem unknown_type_aborts:
  "(strings_ToLower U (Type fd) \<notin> set supportedTypes
     \<longrightarrow> getType U fd = Inl (Error (str ''unknown field type '' @ Type fd))
       \<and> (\<forall>sf pre post.
            GetFieldDescriptors sf tableName = Inr (pre @ fd # post)
            \<and> list_all (\<lambda>d. strings_ToLower U (Type d) \<in> set supportedTypes) pre
            \<longrightarrow> generateTable U outputPath sf dbName tableName opts w =
                  (Some (Error (str ''unknown field type '' @ Type fd)), w)))
   \<and> (GetFieldDescriptors sf' tableName = Inr fds
      \<and> list_ex (\<lambda>d. strings_ToLower U (Type d) \<notin> set supportedTypes) fds
     \<longrightarrow> fst (generateTable U outputPath sf' dbName tableName opts w) \<noteq> None
       \<and> snd (generateTable U outputPath sf' dbName tableName opts w) = w)"
proof -
  have one: "generateTable U outputPath sf dbName tableName opts w =
               (Some (Error (str ''unknown field type '' @ Type d)), w)"
    if u: "strings_ToLower U (Type d) \<notin> set supportedTypes"
      and f: "GetFieldDescriptors sf tableName = Inr (pre @ d # post)"
      and p: "list_all (\<lambda>d. strings_ToLower U (Type d) \<in> set supportedTypes) pre"
    for sf :: schemaFetcher and pre d post
  proof -
    from p have "firstTypeError U pre = None" by (rule supported_no_error)
    then have "firstTypeError U (pre @ d # post) =
                 Some (Error (str ''unknown field type '' @ Type d))"
      using unknown_getType[OF u] by (simp add: firstTypeError_append)
    with f show ?thesis by (simp add: generateTable_char)
  qed
  have two: "fst (generateTable U outputPath sf' dbName tableName opts w) \<noteq> None
       \<and> snd (generateTable U outputPath sf' dbName tableName opts w) = w"
    if h: "GetFieldDescriptors sf' tableName = Inr fds
      \<and> list_ex (\<lambda>d. strings_ToLower U (Type d) \<notin> set supportedTypes) fds"
  proof -
    from h obtain pre d post where "fds = pre @ d # post"
      and "list_all (\<lambda>d. strings_ToLower U (Type d) \<in> set supportedTypes) pre"
      and "strings_ToLower U (Type d) \<notin> set supportedTypes"
      using first_unknown[of U fds] by blast
    with h one[of d sf' pre post] show ?thesis by simp
  qed
  show ?thesis using unknown_getType[of U fd] one[of fd] two by blast
qed

lemma lower_jsonb: "strings_ToLower latin1_tables (str ''JSONB'') = str ''jsonb''"
  by (simp add: strings_ToLower_def unicode_ToLower_def str_def ascii_defs)

lemma lower_int: "strings_ToLower latin1_tables (str ''int'') = str ''int''"
  by (simp add: strings_ToLower_def unicode_ToLower_def str_def ascii_defs)

theorem unknown_type_aborts_witness:
  "strings_ToLower latin1_tables (Type (example_field ''payload'' ''JSONB'')) \<notin> set supportedTypes
   \<and> GetFieldDescriptors
        (example_fetcher [example_field ''id'' ''int'', example_field ''payload'' ''JSONB''])
        (str ''events'')
       = Inr ([example_field ''id'' ''int''] @ example_field ''payload'' ''JSONB'' # [])
   \<and> list_all (\<lambda>d. strings_ToLower latin1_tables (Type d) \<in> set supportedTypes)
        [example_field ''id'' ''int'']
   \<and> list_ex (\<lambda>d. strings_ToLower latin1_tables (Type d) \<notin> set supportedTypes)
        ([example_field ''id'' ''int''] @ example_field ''payload'' ''JSONB'' # [])
   \<and> getType latin1_tables (example_field ''payload'' ''JSONB'')
       = Inl (Error (str ''unknown field type JSONB''))
   \<and> generateTable latin1_tables (str ''out'')
        (example_fetcher [example_field ''id'' ''int'', example_field ''payload'' ''JSONB''])
        (str ''shop'') (str ''events'') example_options example_world
       = (Some (Error (str ''unknown field type JSONB'')), example_world)
   \<and> fst (generateTable latin1_tables (str ''out'')
        (example_fetcher [example_field ''id'' ''int'', example_field ''payload'' ''JSONB''])
        (str ''shop'') (str ''events'') example_options example_world) \<noteq> None
   \<and> snd (generateTable latin1_tables (str ''out'')
        (example_fetcher [example_field ''id'' ''int'', example_field ''payload'' ''JSONB''])
        (str ''shop'') (str ''events'') example_options example_world) = example_world"
proof -
  let ?fd = "example_field ''payload'' ''JSONB''"
  let ?fds = "[example_field ''id'' ''int''] @ ?fd # []"
  let ?sf = "example_fetcher [example_field ''id'' ''int'', ?fd]"
  have a: "strings_ToLower latin1_tables (Type ?fd) \<notin> set supportedTypes"
    by (simp add: example_field_def lower_jsonb supportedTypes_def documented_table_def)
  have b: "GetFieldDescriptors ?sf (str ''events'') = Inr ?fds"
    by (simp add: example_fetcher_def)
  have c: "list_all (\<lambda>d. strings_ToLower latin1_tables (Type d) \<in> set supportedTypes)
             [example_field ''id'' ''int'']"
    by (simp add: example_field_def lower_int supportedTypes_def documented_table_def)
  from a have c': "list_ex (\<lambda>d. strings_ToLower latin1_tables (Type d) \<notin> set supportedTypes) ?fds"
    by simp
  have m: "str ''unknown field type '' @ Type ?fd = str ''unknown field type JSONB''"
    by (simp add: example_field_def str_def)
  note t = unknown_type_aborts[of latin1_tables ?fd "str ''events''" "str ''out''" "str ''shop''"
      example_options example_world ?sf ?fds]
  from t a have d: "getType latin1_tables ?fd = Inl (Error (str ''unknown field type JSONB''))"
    unfolding m by blast
  from t a b c have e: "generateTable latin1_tables (str ''out'') ?sf (str ''shop'') (str ''events'')
      example_options example_world = (Some (Error (str ''unknown field type JSONB'')), example_world)"
    unfolding m by blast
  from t b c' have f: "fst (generateTable latin1_tables (str ''out'') ?sf (str ''shop'')
      (str ''events'') example_options example_world) \<noteq> None
    \<and> snd (generateTable latin1_tables (str ''out'') ?sf (str ''shop'')
      (str ''events'') example_options example_world) = example_world"
    by blast
  from a b c c' d e f show ?thesis by (intro conjI) simp_all
qed

section \<open>Names in the rendered text\<close>






section \<open>Concrete runs\<close>

lemma example_getType: "getType latin1_tables (example_field n ''int'') = Inr (str ''int32'')"
proof -
  have "strings_ToLower latin1_tables (Type (example_field n ''int'')) = str ''int''"
    by (simp add: example_field_def lower_int)
  moreover have "documented_host ''int'' (Size (example_field n ''int'')) = Some ''int32''"
    by (simp add: documented_host_def documented_table_def)
  ultimately have "getType latin1_tables (example_field n ''int'')
      = Inr (documented_type ''int32'' (Unsigned (example_field n ''int''))
               (AllowNull (example_field n ''int'')))"
    by (rule resolved_host)
  then show ?thesis by (simp add: documented_type_def example_field_def)
qed

lemma example_no_error: "firstTypeError latin1_tables example_fields = None"
  by (simp add: example_fields_def example_getType)

lemma example_fetch:
  "GetFieldDescriptors (example_fetcher example_fields) (str ''events'') = Inr example_fields"
  by (simp add: example_fetcher_def)

lemma example_run_ok:
  "openFault w example_path = None \<Longrightarrow>
   fst (generateTable latin1_tables (str ''out'') (example_fetcher example_fields)
          (str ''shop'') (str ''events'') opts w) = None"
  by (simp add: generateTable_char example_fetch example_no_error writeToFile_forced
      example_path_def)

lemma example_world_faults:
  "openFault example_world p = None" "writeFault example_world p = None"
  "openFault occupied_world p = None" "writeFault occupied_world p = None"
  by (simp_all add: example_world_def occupied_world_def)


section \<open>Determinism\<close>

lemma generateTable_ok_fetched:
  assumes "fst (generateTable U outputPath sf dbName tableName opts w) = None"
  obtains fds where "GetFieldDescriptors sf tableName = Inr fds"
proof (cases "GetFieldDescriptors sf tableName")
  case (Inl err)
  with assms show ?thesis by (simp add: generateTable_char)
next
  case (Inr fds)
  then show ?thesis by (rule that)
qed

text \<open>
  C9. Running \<open>generateTable\<close> a second time, on the files the first run left, returns the
  same result and leaves the same files. The text written for a table is the same in any
  two runs that read the same field descriptors, whatever the files and the terminal held
  before.
\<close>

theorem rendering_deterministic:
  "generateTable U outputPath sf dbName tableName opts
     (snd (generateTable U outputPath sf dbName tableName opts w))
     = generateTable U outputPath sf dbName tableName opts w
   \<and> (GetFieldDescriptors sf tableName = GetFieldDescriptors sf' tableName
       \<and> fst (generateTable U outputPath sf dbName tableName opts w) = None
       \<and> fst (generateTable U outputPath sf' dbName tableName opts w') = None
       \<and> writeFault w (goFilePath outputPath tableName) = None
       \<and> writeFault w' (goFilePath outputPath tableName) = None
       \<longrightarrow> files (snd (generateTable U outputPath sf dbName tableName opts w))
              (goFilePath outputPath tableName)
            = files (snd (generateTable U outputPath sf' dbName tableName opts w'))
                (goFilePath outputPath tableName)
          \<and> files (snd (generateTable U outputPath sf dbName tableName opts w))
              (goFilePath outputPath tableName) \<noteq> None)"
proof (intro conjI impI)
  show "generateTable U outputPath sf dbName tableName opts
     (snd (generateTable U outputPath sf dbName tableName opts w))
     = generateTable U outputPath sf dbName tableName opts w"
    by (rule generateTable_idem)
next
  assume h: "GetFieldDescriptors sf tableName = GetFieldDescriptors sf' tableName
       \<and> fst (generateTable U outputPath sf dbName tableName opts w) = None
       \<and> fst (generateTable U outputPath sf' dbName tableName opts w') = None
       \<and> writeFault w (goFilePath outputPath tableName) = None
       \<and> writeFault w' (goFilePath outputPath tableName) = None"
  then have "fst (generateTable U outputPath sf dbName tableName opts w) = None" by simp
  then obtain fds where fds: "GetFieldDescriptors sf tableName = Inr fds"
    by (rule generateTable_ok_fetched)
  with h have fds': "GetFieldDescriptors sf' tableName = Inr fds" by simp
  from h fds have one: "files (snd (generateTable U outputPath sf dbName tableName opts w))
      (goFilePath outputPath tableName) = Some (tableText U dbName tableName opts fds)"
    by (simp add: generateTable_written)
  from h fds' have two: "files (snd (generateTable U outputPath sf' dbName tableName opts w'))
      (goFilePath outputPath tableName) = Some (tableText U dbName tableName opts fds)"
    by (simp add: generateTable_written)
  from one two show "files (snd (generateTable U outputPath sf dbName tableName opts w))
              (goFilePath outputPath tableName)
            = files (snd (generateTable U outputPath sf' dbName tableName opts w'))
                (goFilePath outputPath tableName)" by simp
  from one show "files (snd (generateTable U outputPath sf dbName tableName opts w))
              (goFilePath outputPath tableName) \<noteq> None" by simp
qed

theorem rendering_deterministic_witness:
  "GetFieldDescriptors (example_fetcher example_fields) (str ''events'')
     = GetFieldDescriptors (example_fetcher example_fields) (str ''events'')
   \<and> fst (generateTable latin1_tables (str ''out'') (example_fetcher example_fields)
            (str ''shop'') (str ''events'') example_options example_world) = None
   \<and> fst (generateTable latin1_tables (str ''out'') (example_fetcher example_fields)
            (str ''shop'') (str ''events'') example_options occupied_world) = None
   \<and> writeFault example_world (goFilePath (str ''out'') (str ''events'')) = None
   \<and> writeFault occupied_world (goFilePath (str ''out'') (str ''events'')) = None
   \<and> files example_world (goFilePath (str ''out'') (str ''events''))
       \<noteq> files occupied_world (goFilePath (str ''out'') (str ''events''))
   \<and> files (snd (generateTable latin1_tables (str ''out'') (example_fetcher example_fields)
                   (str ''shop'') (str ''events'') example_options example_world))
        (goFilePath (str ''out'') (str ''events''))
      = files (snd (generateTable latin1_tables (str ''out'') (example_fetcher example_fields)
                   (str ''shop'') (str ''events'') example_options occupied_world))
          (goFilePath (str ''out'') (str ''events''))"
proof -
  have b: "fst (generateTable latin1_tables (str ''out'') (example_fetcher example_fields)
            (str ''shop'') (str ''events'') example_options example_world) = None"
    by (rule example_run_ok) (rule example_world_faults)
  have c: "fst (generateTable latin1_tables (str ''out'') (example_fetcher example_fields)
            (str ''shop'') (str ''events'') example_options occupied_world) = None"
    by (rule example_run_ok) (rule example_world_faults)
  have d: "writeFault example_world (goFilePath (str ''out'') (str ''events'')) = None"
    by (rule example_world_faults)
  have e: "writeFault occupied_world (goFilePath (str ''out'') (str ''events'')) = None"
    by (rule example_world_faults)
  have f: "files example_world (goFilePath (str ''out'') (str ''events''))
       \<noteq> files occupied_world (goFilePath (str ''out'') (str ''events''))"
    by (simp add: example_world_def occupied_world_def example_path_def)
  note t = rendering_deterministic[of latin1_tables "str ''out''" "example_fetcher example_fields"
      "str ''shop''" "str ''events''" example_options example_world
      "example_fetcher example_fields" occupied_world]
  from t b c d e have g: "files (snd (generateTable latin1_tables (str ''out'') (example_fetcher example_fields)
                   (str ''shop'') (str ''events'') example_options example_world))
        (goFilePath (str ''out'') (str ''events''))
      = files (snd (generateTable latin1_tables (str ''out'') (example_fetcher example_fields)
                   (str ''shop'') (str ''events'') example_options occupied_world))
          (goFilePath (str ''out'') (str ''events''))"
    by blast
  from b c d e f g show ?thesis by (intro conjI refl)
qed

section \<open>Overwriting an existing file\<close>












section \<open>The first error stops the run\<close>

lemma Generate_tables_append:
  "Generate_tables U outputPath sf dbName opts (pre @ rest) w =
     (case Generate_tables U outputPath sf dbName opts pre w of
        (None, w1) \<Rightarrow> Generate_tables U outputPath sf dbName opts rest w1
      | (Some err, w1) \<Rightarrow> (Some err, w1))"
proof (induction pre arbitrary: w)
  case Nil
  then show ?case by simp
next
  case (Cons t pre)
  show ?case
  proof (cases "generateTable U outputPath sf dbName t opts (println_Generating t w)")
    case (Pair err w2)
    then show ?thesis by (cases err) (simp_all add: Cons.IH Let_def)
  qed
qed

lemma Generate_tables_stops:
  assumes "Generate_tables U outputPath sf dbName opts pre w = (None, w1)"
      and "generateTable U outputPath sf dbName t opts (println_Generating t w1) = (Some err, w2)"
  shows "Generate_tables U outputPath sf dbName opts (pre @ t # post) w = (Some err, w2)"
  using assms by (simp add: Generate_tables_append Let_def)

lemma strings_Split_nonempty: "strings_Split s sep \<noteq> []"
  by (induction s) (auto split: list.splits)

lemma Generate_char:
  assumes "flag_o fl \<noteq> []" and "flag_dbc fl \<noteq> []"
      and "sql_Open env driverName (flag_dbc fl) = Inr db"
      and "getSchemaFetcherFactory env driverName = Some factory"
      and "GetDatabaseName (factory db) = Inr dbName" and "dbName \<noteq> []"
      and "Generate_targets fl (factory db) = Inr names"
  shows "Generate U env fl driverName exampleDataSourceName w =
           (case Generate_tables U (flag_o fl) (factory db) dbName (Generate_options fl names)
                   names w of
              (err, w') \<Rightarrow> (Return err, w'))"
proof (cases "flag_t fl = []")
  case True
  with assms show ?thesis
    by (simp add: Generate_def Generate_targets_def Generate_options_def Let_def)
next
  case False
  with assms have "names \<noteq> []"
    using strings_Split_nonempty[of "flag_t fl" "chr CHR '',''"]
    by (auto simp: Generate_targets_def)
  with False assms show ?thesis
    by (auto simp: Generate_def Generate_targets_def Generate_options_def Let_def)
qed

text \<open>
  C5. \<open>Generate\<close> works through the table names in order. When the tables before position
  \<open>i\<close> are rendered without error and rendering table \<open>i\<close> returns an error, the loop and
  \<open>Generate\<close> return that error with the files and the terminal as table \<open>i\<close> left them,
  whatever names follow: no later table is announced, read or written.
\<close>

theorem first_error_stops:
  "(Generate_tables U outputPath sf dbName opts pre w = (None, w1)
      \<and> generateTable U outputPath sf dbName t opts (println_Generating t w1) = (Some err, w2)
     \<longrightarrow> Generate_tables U outputPath sf dbName opts (pre @ t # post) w = (Some err, w2))
   \<and> (flag_o fl \<noteq> [] \<and> flag_dbc fl \<noteq> []
      \<and> sql_Open env driverName (flag_dbc fl) = Inr db
      \<and> getSchemaFetcherFactory env driverName = Some factory
      \<and> GetDatabaseName (factory db) = Inr dbName \<and> dbName \<noteq> []
      \<and> Generate_targets fl (factory db) = Inr (pre @ t # post)
      \<and> Generate_tables U (flag_o fl) (factory db) dbName
           (Generate_options fl (pre @ t # post)) pre w = (None, w1)
      \<and> generateTable U (flag_o fl) (factory db) dbName t
           (Generate_options fl (pre @ t # post)) (println_Generating t w1) = (Some err, w2)
     \<longrightarrow> Generate U env fl driverName exampleDataSourceName w = (Return (Some err), w2))"
proof (intro conjI impI)
  assume "Generate_tables U outputPath sf dbName opts pre w = (None, w1)
      \<and> generateTable U outputPath sf dbName t opts (println_Generating t w1) = (Some err, w2)"
  then show "Generate_tables U outputPath sf dbName opts (pre @ t # post) w = (Some err, w2)"
    by (simp add: Generate_tables_stops)
next
  let ?opts = "Generate_options fl (pre @ t # post)"
  assume h: "flag_o fl \<noteq> [] \<and> flag_dbc fl \<noteq> []
      \<and> sql_Open env driverName (flag_dbc fl) = Inr db
      \<and> getSchemaFetcherFactory env driverName = Some factory
      \<and> GetDatabaseName (factory db) = Inr dbName \<and> dbName \<noteq> []
      \<and> Generate_targets fl (factory db) = Inr (pre @ t # post)
      \<and> Generate_tables U (flag_o fl) (factory db) dbName ?opts pre w = (None, w1)
      \<and> generateTable U (flag_o fl) (factory db) dbName t ?opts (println_Generating t w1)
          = (Some err, w2)"
  then have a: "Generate_tables U (flag_o fl) (factory db) dbName ?opts pre w = (None, w1)"
    and b: "generateTable U (flag_o fl) (factory db) dbName t ?opts (println_Generating t w1)
            = (Some err, w2)"
    by simp_all
  from a b have loop: "Generate_tables U (flag_o fl) (factory db) dbName ?opts (pre @ t # post) w
                   = (Some err, w2)"
    by (rule Generate_tables_stops)
  from h have c: "flag_o fl \<noteq> []" "flag_dbc fl \<noteq> []"
      "sql_Open env driverName (flag_dbc fl) = Inr db"
      "getSchemaFetcherFactory env driverName = Some factory"
      "GetDatabaseName (factory db) = Inr dbName" "dbName \<noteq> []"
      "Generate_targets fl (factory db) = Inr (pre @ t # post)"
    by simp_all
  have "Generate U env fl driverName exampleDataSourceName w =
           (case Generate_tables U (flag_o fl) (factory db) dbName ?opts (pre @ t # post) w of
              (err, w') \<Rightarrow> (Return err, w'))"
    using c by (rule Generate_char)
  with loop show "Generate U env fl driverName exampleDataSourceName w = (Return (Some err), w2)"
    by simp
qed


lemma example_jsonb_error:
  "firstTypeError latin1_tables [example_field ''id'' ''int'', example_field ''payload'' ''JSONB'']
     = Some (Error (str ''unknown field type JSONB''))"
proof -
  have "getType latin1_tables (example_field ''id'' ''int'') = Inr (str ''int32'')"
    by (rule example_getType)
  moreover have "strings_ToLower latin1_tables (Type (example_field ''payload'' ''JSONB''))
                   \<notin> set supportedTypes"
    by (simp add: example_field_def lower_jsonb supportedTypes_def documented_table_def)
  then have "getType latin1_tables (example_field ''payload'' ''JSONB'')
               = Inl (Error (str ''unknown field type '' @ Type (example_field ''payload'' ''JSONB'')))"
    by (rule unknown_getType)
  then have "getType latin1_tables (example_field ''payload'' ''JSONB'')
               = Inl (Error (str ''unknown field type JSONB''))"
    by (simp add: example_field_def str_def)
  ultimately show ?thesis by simp
qed

theorem first_error_stops_witness:
  "flag_o example_flags \<noteq> [] \<and> flag_dbc example_flags \<noteq> []
   \<and> sql_Open example_env (str ''mysql'') (flag_dbc example_flags)
       = Inr (str ''mysql'', str ''root@/shop'')
   \<and> getSchemaFetcherFactory example_env (str ''mysql'')
       = Some (newMySQLSchemaFetcher example_env)
   \<and> GetDatabaseName (newMySQLSchemaFetcher example_env (str ''mysql'', str ''root@/shop''))
       = Inr (str ''shop'')
   \<and> str ''shop'' \<noteq> []
   \<and> Generate_targets example_flags
        (newMySQLSchemaFetcher example_env (str ''mysql'', str ''root@/shop''))
       = Inr ([] @ str ''events'' # [str ''users''])
   \<and> Generate_tables latin1_tables (flag_o example_flags)
        (newMySQLSchemaFetcher example_env (str ''mysql'', str ''root@/shop'')) (str ''shop'')
        (Generate_options example_flags ([] @ str ''events'' # [str ''users''])) [] example_world
       = (None, example_world)
   \<and> generateTable latin1_tables (flag_o example_flags)
        (newMySQLSchemaFetcher example_env (str ''mysql'', str ''root@/shop'')) (str ''shop'')
        (str ''events'') (Generate_options example_flags ([] @ str ''events'' # [str ''users'']))
        (println_Generating (str ''events'') example_world)
       = (Some (Error (str ''unknown field type JSONB'')),
          println_Generating (str ''events'') example_world)
   \<and> Generate_tables latin1_tables (flag_o example_flags)
        (newMySQLSchemaFetcher example_env (str ''mysql'', str ''root@/shop'')) (str ''shop'')
        (Generate_options example_flags ([] @ str ''events'' # [str ''users'']))
        ([] @ str ''events'' # [str ''users'']) example_world
       = (Some (Error (str ''unknown field type JSONB'')),
          println_Generating (str ''events'') example_world)
   \<and> Generate latin1_tables example_env example_flags (str ''mysql'') (str ''user@/db'')
        example_world
       = (Return (Some (Error (str ''unknown field type JSONB''))),
          println_Generating (str ''events'') example_world)
   \<and> stderr (println_Generating (str ''events'') example_world) = str ''Generating events'' @ [NL]"
proof -
  let ?db = "(str ''mysql'', str ''root@/shop'')"
  let ?sf = "newMySQLSchemaFetcher example_env ?db"
  let ?names = "[] @ str ''events'' # [str ''users'']"
  let ?opts = "Generate_options example_flags ?names"
  let ?w1 = "println_Generating (str ''events'') example_world"
  let ?err = "Error (str ''unknown field type JSONB'')"
  have a: "flag_o example_flags \<noteq> [] \<and> flag_dbc example_flags \<noteq> []"
    by (simp add: example_flags_def str_def)
  have b: "sql_Open example_env (str ''mysql'') (flag_dbc example_flags) = Inr ?db"
    by (simp add: example_env_def example_flags_def)
  have c: "getSchemaFetcherFactory example_env (str ''mysql'')
             = Some (newMySQLSchemaFetcher example_env)"
    by (simp add: getSchemaFetcherFactory_def)
  have d: "GetDatabaseName ?sf = Inr (str ''shop'')"
    by (simp add: example_env_def example_fetcher_def)
  have e: "str ''shop'' \<noteq> []"
    by (simp add: str_def)
  have f: "Generate_targets example_flags ?sf = Inr ?names"
    by (simp add: Generate_targets_def example_flags_def str_def chr_def)
  have g: "Generate_tables latin1_tables (flag_o example_flags) ?sf (str ''shop'') ?opts []
             example_world = (None, example_world)"
    by simp
  have h: "generateTable latin1_tables (flag_o example_flags) ?sf (str ''shop'') (str ''events'')
             ?opts ?w1 = (Some ?err, ?w1)"
    by (simp add: generateTable_char example_env_def example_fetcher_def example_jsonb_error
        del: firstTypeError.simps)
  note t = first_error_stops[of latin1_tables "flag_o example_flags" ?sf "str ''shop''" ?opts
      "[]" example_world example_world "str ''events''" ?err ?w1 "[str ''users'']"
      example_flags example_env "str ''mysql''" ?db "newMySQLSchemaFetcher example_env"
      "str ''user@/db''"]
  from t a b c d e f g h
  have i: "Generate latin1_tables example_env example_flags (str ''mysql'') (str ''user@/db'')
            example_world = (Return (Some ?err), ?w1)"
    by blast
  from t g h
  have k: "Generate_tables latin1_tables (flag_o example_flags) ?sf (str ''shop'') ?opts ?names
            example_world = (Some ?err, ?w1)"
    by blast
  have j: "stderr ?w1 = str ''Generating events'' @ [NL]"
    by (simp add: println_Generating_def example_world_def str_def)
  from a b c d e f g h k i j show ?thesis by (intro conjI) simp_all
qed

section \<open>The import of the time package\<close>

lemmas eval_defs = str_def chr_def MaxASCII_def asciiUpper_def asciiLower_def asciiDigit_def
  unicode_IsLetter_def unicode_IsDigit_def unicode_IsUpper_def unicode_ToUpper_def
  unicode_ToLower_def strings_ToLower_def strings_EqualFold_def foldEq_def
  NL_def TAB_def DQUOTE_def BQUOTE_def

lemma events_header: "newBuffWithBaseHeader (str ''shop'') =
     str ''// This file is generated by sqlmodel (https://github.com/Ficoto/sqlmodel)'' @ [NL] @
     str ''// DO NOT EDIT.'' @ [NL] @ str ''package shop '' @ [NL, NL]"
  by (simp add: newBuffWithBaseHeader_def ensureIdentifier_def
      nonIdentifierRegexp_ReplaceAllString_def isWordChar_def Let_def eval_defs)

lemma events_class:
  "convertToExportedIdentifier latin1_tables (str ''events'') [str ''ID''] = str ''Events''"
  by (simp add: convertToExportedIdentifier_def Let_def eval_defs)

lemma events_field:
  "convertToExportedIdentifier latin1_tables (str ''created_at'') [str ''ID''] = str ''CreatedAt''"
  by (simp add: convertToExportedIdentifier_def Let_def eval_defs)

lemma lower_datetime:
  "strings_ToLower latin1_tables (str ''DATETIME'') = str ''datetime''"
  "strings_ToLower latin1_tables (str ''datetime'') = str ''datetime''"
  by (simp_all add: eval_defs)

lemma datetime_type:
  "getType latin1_tables (example_field n ''DATETIME'') = Inr (str ''time.Time'')"
  "getType latin1_tables (example_field n ''datetime'') = Inr (str ''time.Time'')"
proof -
  have h: "documented_host ''datetime'' sz = Some ''time.Time''" for sz
    by (simp add: documented_host_def documented_table_def)
  have "strings_ToLower latin1_tables (Type (example_field n ''DATETIME'')) = str ''datetime''"
    by (simp add: example_field_def lower_datetime)
  from resolved_host[OF this h]
  show "getType latin1_tables (example_field n ''DATETIME'') = Inr (str ''time.Time'')"
    by (simp add: documented_type_def example_field_def is_integer_type_def)
  have "strings_ToLower latin1_tables (Type (example_field n ''datetime'')) = str ''datetime''"
    by (simp add: example_field_def lower_datetime)
  from resolved_host[OF this h]
  show "getType latin1_tables (example_field n ''datetime'') = Inr (str ''time.Time'')"
    by (simp add: documented_type_def example_field_def is_integer_type_def)
qed

lemma datetime_needsTime:
  "\<not> needsTime (example_field n ''DATETIME'')" "needsTime (example_field n ''datetime'')"
  by (simp_all add: needsTime_def example_field_def)

lemma example_field_sel:
  "Name (example_field n t) = str n" "Type (example_field n t) = str t"
  "Comment (example_field n t) = []"
  by (simp_all add: example_field_def)

lemma example_options_sel:
  "tag example_options = str ''gorm''" "forceCases example_options = [str ''ID'']"
  by (simp_all add: example_options_def)

lemma events_fieldText:
  "fieldText latin1_tables example_options (example_field ''created_at'' ''DATETIME'') =
     [TAB] @ str ''CreatedAt'' @ str '' '' @ str ''time.Time'' @ str '' '' @
     gormTag (str ''created_at'') @ [NL]"
  "fieldText latin1_tables example_options (example_field ''created_at'' ''datetime'') =
     [TAB] @ str ''CreatedAt'' @ str '' '' @ str ''time.Time'' @ str '' '' @
     gormTag (str ''created_at'') @ [NL]"
  by (simp_all add: fieldText_def datetime_type example_field_sel example_options_sel
      events_field getTag_def gormTag_def)

lemma events_text:
  "tableText latin1_tables (str ''shop'') (str ''events'') example_options
     [example_field ''created_at'' ''DATETIME''] = generated_events False"
  "tableText latin1_tables (str ''shop'') (str ''events'') example_options
     [example_field ''created_at'' ''datetime''] = generated_events True"
  by (simp_all add: tableText_def events_fieldText datetime_needsTime events_header
      example_options_sel events_class generated_events_def)
     (simp_all add: str_def)

lemma no_import: "\<not> sublist (str ''import'') (generated_events False)"
  by (simp add: generated_events_def gormTag_def eval_defs sublist_code)


lemma has_time_type: "sublist (str ''time.Time'') (generated_events False)"
  by (simp add: generated_events_def gormTag_def eval_defs sublist_code)

lemma events_run:
  "generateTable latin1_tables (str ''out'') (example_fetcher fds) (str ''shop'') (str ''events'')
     example_options example_world =
   (case firstTypeError latin1_tables fds of
      Some err \<Rightarrow> (Some err, example_world)
    | None \<Rightarrow>
        (None, example_world\<lparr>files := [example_path \<mapsto>
           tableText latin1_tables (str ''shop'') (str ''events'') example_options fds]\<rparr>))"
  by (simp add: generateTable_char writeToFile_forced example_fetcher_def example_world_faults
      example_path_def split: option.splits)
     (simp add: example_world_def)

text \<open>
  C3 fails on the code. A column declared \<open>DATETIME\<close> is mapped to \<open>time.Time\<close>, since
  \<open>getType\<close> lower-cases the declared type, but the test that sets \<open>isNeedImportTime\<close>
  compares the declared type as it is: the file written names \<open>time.Time\<close> and has no
  import. The same column declared \<open>datetime\<close> gets the import line.
\<close>

theorem time_import_case_sensitive:
  "getType latin1_tables (example_field ''created_at'' ''DATETIME'') = Inr (str ''time.Time'')
   \<and> generateTable latin1_tables (str ''out'')
        (example_fetcher [example_field ''created_at'' ''DATETIME''])
        (str ''shop'') (str ''events'') example_options example_world
       = (None, example_world\<lparr>files := [example_path \<mapsto> generated_events False]\<rparr>)
   \<and> sublist (str ''time.Time'') (generated_events False)
   \<and> \<not> sublist (str ''import'') (generated_events False)
   \<and> generateTable latin1_tables (str ''out'')
        (example_fetcher [example_field ''created_at'' ''datetime''])
        (str ''shop'') (str ''events'') example_options example_world
       = (None, example_world\<lparr>files := [example_path \<mapsto> generated_events True]\<rparr>)"
proof (intro conjI)
  show "getType latin1_tables (example_field ''created_at'' ''DATETIME'') = Inr (str ''time.Time'')"
    by (rule datetime_type)
  show "generateTable latin1_tables (str ''out'')
        (example_fetcher [example_field ''created_at'' ''DATETIME''])
        (str ''shop'') (str ''events'') example_options example_world
       = (None, example_world\<lparr>files := [example_path \<mapsto> generated_events False]\<rparr>)"
    unfolding events_run by (simp add: datetime_type events_text)
  show "sublist (str ''time.Time'') (generated_events False)"
    by (rule has_time_type)
  show "\<not> sublist (str ''import'') (generated_events False)"
    by (rule no_import)
  show "generateTable latin1_tables (str ''out'')
        (example_fetcher [example_field ''created_at'' ''datetime''])
        (str ''shop'') (str ''events'') example_options example_world
       = (None, example_world\<lparr>files := [example_path \<mapsto> generated_events True]\<rparr>)"
    unfolding events_run by (simp add: datetime_type events_text)
qed

end
